theory Spec2Isabelle
  imports Complex_Main "HOL-Library.Word" "HOL-Library.Monad_Syntax" "HOL-Library.Sublist"
begin

unbundle bit_operations_syntax

section \<open>Bytes, unsigned 64-bit integers and Go slices\<close>

type_synonym byte = "8 word"
type_synonym uint64 = "64 word"

text \<open>
  \<^verbatim>\<open>binary.LittleEndian.PutUint64(b, v)\<close> on a fresh 8-byte buffer:
  \<^verbatim>\<open>b[0] = byte(v); b[1] = byte(v >> 8); ...; b[7] = byte(v >> 56)\<close>.
\<close>

definition PutUint64 :: "uint64 \<Rightarrow> byte list" where
  "PutUint64 v =
     [ucast v, ucast (drop_bit 8 v), ucast (drop_bit 16 v), ucast (drop_bit 24 v),
      ucast (drop_bit 32 v), ucast (drop_bit 40 v), ucast (drop_bit 48 v),
      ucast (drop_bit 56 v)]"

text \<open>
  \<^verbatim>\<open>binary.LittleEndian.Uint64(b)\<close>:
  \<^verbatim>\<open>uint64(b[0]) | uint64(b[1])<<8 | ... | uint64(b[7])<<56\<close>. Every call in the
  program passes a slice of length 8, so the library's own bounds check on \<^verbatim>\<open>b[7]\<close>
  passes.
\<close>

definition Uint64 :: "byte list \<Rightarrow> uint64" where
  "Uint64 b =
     ucast (b ! 0) OR push_bit 8 (ucast (b ! 1)) OR push_bit 16 (ucast (b ! 2)) OR
     push_bit 24 (ucast (b ! 3)) OR push_bit 32 (ucast (b ! 4)) OR
     push_bit 40 (ucast (b ! 5)) OR push_bit 48 (ucast (b ! 6)) OR
     push_bit 56 (ucast (b ! 7))"

text \<open>
  A Go string is a sequence of bytes; \<^verbatim>\<open>[]byte(s)\<close> and \<^verbatim>\<open>string(b)\<close> convert
  between the two without changing a byte.
\<close>

definition bytes_of_string :: "string \<Rightarrow> byte list" where
  "bytes_of_string s = map (\<lambda>c. word_of_nat (of_char c)) s"

definition string_of_bytes :: "byte list \<Rightarrow> string" where
  "string_of_bytes b = map (\<lambda>w. char_of (unat w)) b"

text \<open>
  A Go slice \<^verbatim>\<open>[]byte\<close> is a window on a backing array: it has a length and a
  capacity. \<open>arr\<close> holds the backing array from the slice's first element up to its
  capacity, \<open>slen\<close> is the length; the elements of the slice are the first \<open>slen\<close> of
  \<open>arr\<close>.

  A slice expression panics when its bounds are out of range; a panic is the value
  \<open>None\<close> of the option monad, everything else is \<open>Some\<close>.
  \<^item> \<^verbatim>\<open>s[:n]\<close> needs \<^verbatim>\<open>n <= cap(s)\<close> (the upper bound of a slice expression is
    checked against the capacity, not the length);
  \<^item> \<^verbatim>\<open>s[n:]\<close> needs \<^verbatim>\<open>n <= len(s)\<close>.
\<close>

record slice =
  arr :: "byte list"
  slen :: nat

definition mk_slice :: "byte list \<Rightarrow> byte list \<Rightarrow> slice" where
  "mk_slice elems spare = \<lparr>arr = elems @ spare, slen = length elems\<rparr>"

definition slice_bytes :: "slice \<Rightarrow> byte list" where
  "slice_bytes s = take (slen s) (arr s)"

definition slice_cap :: "slice \<Rightarrow> nat" where
  "slice_cap s = length (arr s)"

definition slice_to :: "slice \<Rightarrow> nat \<Rightarrow> slice option" where
  "slice_to s n = (if n \<le> slice_cap s then Some (s\<lparr>slen := n\<rparr>) else None)"

definition slice_from :: "slice \<Rightarrow> nat \<Rightarrow> slice option" where
  "slice_from s n =
     (if n \<le> slen s then Some \<lparr>arr = drop n (arr s), slen = slen s - n\<rparr> else None)"

text \<open>\<^verbatim>\<open>copy(dst, src)\<close> copies \<^verbatim>\<open>min(len(dst), len(src))\<close> elements.\<close>

definition copy_bytes :: "byte list \<Rightarrow> byte list \<Rightarrow> byte list" where
  "copy_bytes dst src =
     (let n = min (length dst) (length src) in take n src @ drop n dst)"

section \<open>Errors\<close>

text \<open>
  One constructor for each \<^verbatim>\<open>fmt.Errorf\<close> of the package; an error that wraps another
  one carries it. \<open>External\<close> stands for the errors of the puzzle packages.
\<close>

datatype error =
    External string
  | PairWrongLength
  | OrderTooShort nat
  | PairDeserialize error
  | SolvingPuzzle error
  | DeserializingOrder error
  | CreatingPuzzle error
  | AmountWantZero
  | NotBuyOrSell
  | PriceNotPositive
  | InvalidSide

section \<open>Floating point\<close>

text \<open>
  \<^verbatim>\<open>float64\<close> is IEEE 754 binary64: a sign with a magnitude, the infinities and NaN.
  In \<open>Finite s m\<close> the sign \<open>s\<close> is \<open>True\<close> for a negative number and \<open>m\<close> is the
  magnitude, so \<open>Finite True 0\<close> is the negative zero.
\<close>

datatype float64 = Finite bool rat | Infinity bool | NaN

text \<open>The position of the leading bit of a positive natural number.\<close>

fun log2_nat :: "nat \<Rightarrow> nat" where
  "log2_nat n = (if n < 2 then 0 else Suc (log2_nat (n div 2)))"

declare log2_nat.simps [simp del]

text \<open>Two to an integer power, as a rational.\<close>

definition pow2 :: "int \<Rightarrow> rat" where
  "pow2 e = (if 0 \<le> e then 2 ^ nat e else 1 / 2 ^ nat (- e))"

text \<open>
  The binary exponent of a positive rational \<open>q\<close>: the \<open>e\<close> with
  \<open>2 ^ e \<le> q < 2 ^ (e + 1)\<close>, from the bit lengths of numerator and denominator.
\<close>

definition exponent_of :: "rat \<Rightarrow> int" where
  "exponent_of q =
     (let (n, d) = quotient_of q;
          k = int (log2_nat (nat n)) - int (log2_nat (nat d))
      in if pow2 k \<le> q then k else k - 1)"

text \<open>Rounding to the nearest integer, ties to even.\<close>

definition round_half_even :: "rat \<Rightarrow> int" where
  "round_half_even q =
     (let f = \<lfloor>q\<rfloor>; r = q - of_int f
      in if r < 1 / 2 then f else if 1 / 2 < r then f + 1
         else if even f then f else f + 1)"

text \<open>
  The binary64 value nearest to a magnitude \<open>q \<ge> 0\<close> (53 significant bits, least
  exponent \<open>-1022\<close>, ties to even); a magnitude that rounds to \<open>2 ^ 1024\<close> or more
  overflows to infinity.
\<close>

definition round_float64 :: "bool \<Rightarrow> rat \<Rightarrow> float64" where
  "round_float64 s q =
     (if q = 0 then Finite s 0
      else let e = max (exponent_of q) (- 1022);
               ulp = pow2 (e - 52);
               m = round_half_even (q / ulp)
           in if 1024 \<le> e \<or> (e = 1023 \<and> m = 2 ^ 53) then Infinity s
              else Finite s (of_int m * ulp))"

text \<open>\<^verbatim>\<open>float64(v)\<close> for an unsigned integer \<open>v\<close>.\<close>

definition float64_of_uint64 :: "uint64 \<Rightarrow> float64" where
  "float64_of_uint64 v = round_float64 False (of_nat (unat v))"

text \<open>\<^verbatim>\<open>x * y\<close> and \<^verbatim>\<open>x / y\<close> on \<^verbatim>\<open>float64\<close>. Neither panics.\<close>

fun float64_mul :: "float64 \<Rightarrow> float64 \<Rightarrow> float64" where
  "float64_mul NaN _ = NaN"
| "float64_mul _ NaN = NaN"
| "float64_mul (Finite s x) (Finite t y) = round_float64 (s \<noteq> t) (\<bar>x\<bar> * \<bar>y\<bar>)"
| "float64_mul (Finite s x) (Infinity t) = (if x = 0 then NaN else Infinity (s \<noteq> t))"
| "float64_mul (Infinity s) (Finite t y) = (if y = 0 then NaN else Infinity (s \<noteq> t))"
| "float64_mul (Infinity s) (Infinity t) = Infinity (s \<noteq> t)"

fun float64_div :: "float64 \<Rightarrow> float64 \<Rightarrow> float64" where
  "float64_div NaN _ = NaN"
| "float64_div _ NaN = NaN"
| "float64_div (Finite s x) (Finite t y) =
     (if y = 0 then (if x = 0 then NaN else Infinity (s \<noteq> t))
      else round_float64 (s \<noteq> t) (\<bar>x\<bar> / \<bar>y\<bar>))"
| "float64_div (Finite s x) (Infinity t) = Finite (s \<noteq> t) 0"
| "float64_div (Infinity s) (Finite t y) = Infinity (s \<noteq> t)"
| "float64_div (Infinity s) (Infinity t) = NaN"

text \<open>\<^verbatim>\<open>x <= 0\<close>: false for NaN, true for both zeros.\<close>

fun float64_le_zero :: "float64 \<Rightarrow> bool" where
  "float64_le_zero NaN = False"
| "float64_le_zero (Infinity s) = s"
| "float64_le_zero (Finite s x) = (s \<or> x = 0)"

text \<open>
  \<^verbatim>\<open>uint64(x)\<close> for a \<^verbatim>\<open>float64\<close>: the fraction is discarded (truncation towards
  zero). When the truncated value is not a \<^verbatim>\<open>uint64\<close> (NaN, an infinity, a value of
  \<open>2 ^ 64\<close> or more, a negative value of magnitude 1 or more) the conversion still
  succeeds and Go leaves the result to the implementation: \<open>impl\<close> is the
  implementation's choice.
\<close>

fun uint64_of_float64 :: "(float64 \<Rightarrow> uint64) \<Rightarrow> float64 \<Rightarrow> uint64" where
  "uint64_of_float64 impl (Finite s x) =
     (if \<bar>x\<bar> < 1 then 0
      else if \<not> s \<and> \<bar>x\<bar> < 2 ^ 64 then word_of_int \<lfloor>\<bar>x\<bar>\<rfloor>
      else impl (Finite s x))"
| "uint64_of_float64 impl x = impl x"

section \<open>Trading pairs\<close>

text \<open>
  Modelled from the spec: the type \<^verbatim>\<open>Pair\<close> with its methods \<^verbatim>\<open>Size\<close>,
  \<^verbatim>\<open>Serialize\<close> and \<^verbatim>\<open>Deserialize\<close> is not among the source files. The spec has
  \<open>tradingPair\<close> as a 2-byte code of an external type, written to the wire as
  \<open>tradingPair[2]\<close>: a pair is its two bytes, its size is 2, and decoding takes a
  buffer of exactly two bytes.
\<close>

type_synonym Pair = "byte \<times> byte"

definition Pair_Size :: nat where
  "Pair_Size = 2"

definition Pair_Serialize :: "Pair \<Rightarrow> byte list" where
  "Pair_Serialize p = [fst p, snd p]"

definition Pair_Deserialize :: "Pair \<Rightarrow> byte list \<Rightarrow> Pair \<times> error option" where
  "Pair_Deserialize p buf =
     (if length buf \<noteq> 2 then (p, Some PairWrongLength) else ((buf ! 0, buf ! 1), None))"

section \<open>Auction orders\<close>

text \<open>
  The struct \<^verbatim>\<open>AuctionOrder\<close>. The arrays \<^verbatim>\<open>[33]byte\<close>, \<^verbatim>\<open>[32]byte\<close> and
  \<^verbatim>\<open>[2]byte\<close> are byte lists whose lengths \<open>well_typed\<close> fixes; \<open>Signature\<close> is the
  content of the slice.
\<close>

record AuctionOrder =
  Pubkey :: "byte list"
  Side :: string
  TradingPair :: Pair
  AmountHave :: uint64
  AmountWant :: uint64
  OrderbookPrice :: float64
  AuctionID :: "byte list"
  Nonce :: "byte list"
  Signature :: "byte list"

text \<open>
  What Go's types guarantee of an order: the sizes of the arrays, and that a length is
  an \<^verbatim>\<open>int\<close>, so below \<open>2 ^ 63\<close>.
\<close>

definition well_typed :: "AuctionOrder \<Rightarrow> bool" where
  "well_typed a \<longleftrightarrow>
     length (Pubkey a) = 33 \<and> length (AuctionID a) = 32 \<and> length (Nonce a) = 2 \<and>
     length (Side a) < 2 ^ 63 \<and> length (Signature a) < 2 ^ 63"

text \<open>\<^verbatim>\<open>new(AuctionOrder)\<close>: every field has its zero value.\<close>

definition new_AuctionOrder :: AuctionOrder where
  "new_AuctionOrder =
     \<lparr>Pubkey = replicate 33 0, Side = [], TradingPair = (0, 0), AmountHave = 0,
      AmountWant = 0, OrderbookPrice = Finite False 0, AuctionID = replicate 32 0,
      Nonce = replicate 2 0, Signature = []\<rparr>"

definition IsBuySide :: "AuctionOrder \<Rightarrow> bool" where
  "IsBuySide a \<longleftrightarrow> Side a = ''buy''"

definition IsSellSide :: "AuctionOrder \<Rightarrow> bool" where
  "IsSellSide a \<longleftrightarrow> Side a = ''sell''"

text \<open>
  \<^verbatim>\<open>Price\<close> returns the pair \<^verbatim>\<open>(price, err)\<close>. The buy branch returns; the sell
  branch sets the price and falls through to the assignment of the error.
\<close>

definition Price :: "AuctionOrder \<Rightarrow> float64 \<times> error option" where
  "Price a =
     (if AmountWant a = 0 then (Finite False 0, Some AmountWantZero)
      else if IsBuySide a then
        (float64_div (float64_of_uint64 (AmountWant a)) (float64_of_uint64 (AmountHave a)),
         None)
      else if IsSellSide a then
        (float64_div (float64_of_uint64 (AmountHave a)) (float64_of_uint64 (AmountWant a)),
         Some NotBuyOrSell)
      else (Finite False 0, Some NotBuyOrSell))"

definition Serialize :: "AuctionOrder \<Rightarrow> byte list" where
  "Serialize a =
     Pubkey a @ Pair_Serialize (TradingPair a) @
     PutUint64 (AmountHave a) @
     PutUint64 (AmountWant a) @
     PutUint64 (word_of_nat (length (Side a))) @
     bytes_of_string (Side a) @ AuctionID a @ Nonce a @
     PutUint64 (word_of_nat (length (Signature a))) @
     Signature a"

definition SerializeSignable :: "AuctionOrder \<Rightarrow> byte list" where
  "SerializeSignable a =
     Pubkey a @ Pair_Serialize (TradingPair a) @
     PutUint64 (AmountHave a) @
     PutUint64 (AmountWant a) @
     PutUint64 (word_of_nat (length (Side a))) @
     bytes_of_string (Side a) @ AuctionID a @ Nonce a"

text \<open>
  \<^verbatim>\<open>Deserialize\<close> writes into its receiver \<open>a\<close> and returns an error: the result is
  the receiver afterwards with the error, or \<open>None\<close> when a slice expression panics.
  Each field the source assigns is bound when the source assigns it; the receiver
  afterwards holds the fields assigned before the return.
  \<^verbatim>\<open>binary.Size\<close> of a \<^verbatim>\<open>float64\<close> and of a \<^verbatim>\<open>uint64\<close> is 8.
\<close>

definition Deserialize ::
  "AuctionOrder \<Rightarrow> slice \<Rightarrow> (AuctionOrder \<times> error option) option" where
  "Deserialize a data =
     (let minimumDataLength =
            length (Nonce a) + length (AuctionID a) + 8 + 8 + 8 + Pair_Size +
            length (Pubkey a)
      in if slen data < minimumDataLength then Some (a, Some (OrderTooShort (slen data)))
         else do {
           src \<leftarrow> slice_to data 33;
           let pubkey = copy_bytes (Pubkey a) (slice_bytes src);
           data \<leftarrow> slice_from data 33;
           src \<leftarrow> slice_to data 2;
           let tradingPairBytes = copy_bytes [0, 0] (slice_bytes src);
           let (tradingPair, err) = Pair_Deserialize (TradingPair a) tradingPairBytes;
           case err of
             Some e \<Rightarrow>
               Some (a\<lparr>Pubkey := pubkey, TradingPair := tradingPair\<rparr>,
                     Some (PairDeserialize e))
           | None \<Rightarrow> do {
               data \<leftarrow> slice_from data 2;
               src \<leftarrow> slice_to data 8;
               let amountHave = Uint64 (slice_bytes src);
               data \<leftarrow> slice_from data 8;
               src \<leftarrow> slice_to data 8;
               let amountWant = Uint64 (slice_bytes src);
               data \<leftarrow> slice_from data 8;
               src \<leftarrow> slice_to data 8;
               let sideLen = Uint64 (slice_bytes src);
               data \<leftarrow> slice_from data 8;
               src \<leftarrow> slice_to data (unat sideLen);
               let side = string_of_bytes (slice_bytes src);
               data \<leftarrow> slice_from data (unat sideLen);
               src \<leftarrow> slice_to data 32;
               let auctionID = copy_bytes (AuctionID a) (slice_bytes src);
               data \<leftarrow> slice_from data 32;
               src \<leftarrow> slice_to data 2;
               let nonce = copy_bytes (Nonce a) (slice_bytes src);
               data \<leftarrow> slice_from data 2;
               src \<leftarrow> slice_to data 8;
               let sigLen = Uint64 (slice_bytes src);
               data \<leftarrow> slice_from data 8;
               src \<leftarrow> slice_to data (unat sigLen);
               let signature = slice_bytes src;
               data \<leftarrow> slice_from data (unat sigLen);
               Some (a\<lparr>Pubkey := pubkey, TradingPair := tradingPair,
                       AmountHave := amountHave, AmountWant := amountWant, Side := side,
                       AuctionID := auctionID, Nonce := nonce, Signature := signature\<rparr>,
                     None)
             }
         })"

text \<open>
  \<^verbatim>\<open>SetAmountWant\<close> returns the receiver afterwards with the error. \<open>impl\<close> is the
  implementation's result for a \<^verbatim>\<open>float64\<close> that \<^verbatim>\<open>uint64\<close> cannot represent.
\<close>

definition SetAmountWant ::
  "(float64 \<Rightarrow> uint64) \<Rightarrow> AuctionOrder \<Rightarrow> float64 \<Rightarrow> AuctionOrder \<times> error option" where
  "SetAmountWant impl a price =
     (if float64_le_zero price then (a, Some PriceNotPositive)
      else if IsBuySide a then
        (a\<lparr>AmountWant :=
             uint64_of_float64 impl (float64_mul (float64_of_uint64 (AmountHave a)) price)\<rparr>,
         None)
      else if IsSellSide a then
        (a\<lparr>AmountWant :=
             uint64_of_float64 impl (float64_div (float64_of_uint64 (AmountHave a)) price)\<rparr>,
         None)
      else (a, Some InvalidSide))"

section \<open>Encrypted orders and the puzzle solver\<close>

text \<open>
  The struct \<^verbatim>\<open>EncryptedAuctionOrder\<close>. \<^verbatim>\<open>crypto.Puzzle\<close> is an interface of a
  package that is not among the source files: \<open>'p\<close> is the type of its values, and
  \<open>None\<close> is the nil interface.
\<close>

record 'p EncryptedAuctionOrder =
  OrderCiphertext :: "byte list"
  OrderPuzzle :: "'p option"
  IntendedAuction :: "byte list"

text \<open>
  \<^verbatim>\<open>TurnIntoEncryptedOrder\<close> returns the pair \<^verbatim>\<open>(encrypted, err)\<close>.
  \<^verbatim>\<open>timelockencoders.CreateRSW2048A2PuzzleRC5\<close> is not among the source files:
  \<open>create\<close> is what it returns, \<^verbatim>\<open>(ciphertext, puzzle, err)\<close>, for a time
  parameter and a payload. Its three results are assigned before the error is tested.
\<close>

definition TurnIntoEncryptedOrder ::
  "(uint64 \<Rightarrow> byte list \<Rightarrow> byte list \<times> 'p option \<times> error option) \<Rightarrow>
   AuctionOrder \<Rightarrow> uint64 \<Rightarrow> 'p EncryptedAuctionOrder \<times> error option" where
  "TurnIntoEncryptedOrder create a t =
     (let (ciphertext, puzzle, err) = create t (Serialize a);
          encrypted = \<lparr>OrderCiphertext = ciphertext, OrderPuzzle = puzzle,
                       IntendedAuction = replicate 32 0\<rparr>
      in case err of
           Some e \<Rightarrow> (encrypted, Some (CreatingPuzzle e))
         | None \<Rightarrow> (encrypted\<lparr>IntendedAuction := AuctionID a\<rparr>, None))"

text \<open>
  The struct \<^verbatim>\<open>OrderPuzzleResult\<close>: the pointer \<^verbatim>\<open>Encrypted\<close> is the order it
  points to, the pointer \<^verbatim>\<open>Auction\<close> is \<open>None\<close> when nil.
\<close>

record 'p OrderPuzzleResult =
  Encrypted :: "'p EncryptedAuctionOrder"
  Auction :: "AuctionOrder option"
  Err :: "error option"

text \<open>
  \<^verbatim>\<open>SolveRC5AuctionOrderAsync\<close>. \<^verbatim>\<open>timelockencoders.SolvePuzzleRC5\<close> is not among
  the source files: \<open>solve\<close> is what it returns, \<^verbatim>\<open>(orderBytes, err)\<close>, for a
  ciphertext and a puzzle. The channel is the list of the results sent on it so far, and
  a send appends to it; the function returns the channel afterwards, or \<open>None\<close>
  when it panics, in which case nothing has been sent.
\<close>

definition SolveRC5AuctionOrderAsync ::
  "(byte list \<Rightarrow> 'p option \<Rightarrow> slice \<times> error option) \<Rightarrow>
   'p EncryptedAuctionOrder \<Rightarrow> 'p OrderPuzzleResult list \<Rightarrow>
   'p OrderPuzzleResult list option" where
  "SolveRC5AuctionOrderAsync solve e puzzleResChan =
     (let result = \<lparr>Encrypted = e, Auction = None, Err = None\<rparr>;
          (orderBytes, err) = solve (OrderCiphertext e) (OrderPuzzle e)
      in case err of
           Some e1 \<Rightarrow> Some (puzzleResChan @ [result\<lparr>Err := Some (SolvingPuzzle e1)\<rparr>])
         | None \<Rightarrow> do {
             (auction, err) \<leftarrow> Deserialize new_AuctionOrder orderBytes;
             case err of
               Some e2 \<Rightarrow>
                 Some (puzzleResChan @
                   [result\<lparr>Auction := Some auction, Err := Some (DeserializingOrder e2)\<rparr>])
             | None \<Rightarrow> Some (puzzleResChan @ [result\<lparr>Auction := Some auction\<rparr>])
           })"

section \<open>Sample values\<close>

definition sample_order :: AuctionOrder where
  "sample_order =
     \<lparr>Pubkey = replicate 33 2, Side = ''buy'', TradingPair = (1, 2), AmountHave = 100,
      AmountWant = 200, OrderbookPrice = Finite False 0, AuctionID = replicate 32 7,
      Nonce = [0, 1], Signature = [9, 8, 7]\<rparr>"

section \<open>Facts about the byte layer\<close>

lemma bit_byte_of_uint64:
  "bit (push_bit k (ucast (ucast (drop_bit k v :: uint64) :: byte)) :: uint64) n \<longleftrightarrow>
     k \<le> n \<and> n < k + 8 \<and> n < 64 \<and> bit v n"
  by (auto simp add: bit_push_bit_iff bit_ucast_iff bit_drop_bit_eq)

lemma bit_low_byte_of_uint64:
  "bit (ucast (ucast (v :: uint64) :: byte) :: uint64) n \<longleftrightarrow> n < 8 \<and> bit v n"
  by (auto simp add: bit_ucast_iff)

lemma Uint64_PutUint64 [simp]: "Uint64 (PutUint64 v) = v"
proof (rule bit_word_eqI)
  fix n :: nat
  assume "n < LENGTH(64)"
  then have n: "n < 64" by simp
  have "bit (Uint64 (PutUint64 v)) n \<longleftrightarrow> n < 64 \<and> bit v n"
    unfolding Uint64_def PutUint64_def
    by (simp add: bit_or_iff bit_byte_of_uint64 bit_low_byte_of_uint64) arith
  with n show "bit (Uint64 (PutUint64 v)) n \<longleftrightarrow> bit v n" by simp
qed

lemma length_PutUint64 [simp]: "length (PutUint64 v) = 8"
  by (simp add: PutUint64_def)

lemma string_of_bytes_of_string [simp]: "string_of_bytes (bytes_of_string s) = s"
  by (simp add: string_of_bytes_def bytes_of_string_def comp_def unat_of_nat)

lemma length_bytes_of_string [simp]: "length (bytes_of_string s) = length s"
  by (simp add: bytes_of_string_def)

lemma unat_length: "n < 2 ^ 63 \<Longrightarrow> unat (word_of_nat n :: uint64) = n"
  by (simp add: unat_of_nat)

lemma copy_bytes_same_length [simp]: "length dst = length src \<Longrightarrow> copy_bytes dst src = src"
  by (simp add: copy_bytes_def)

lemma slice_to_app:
  "length xs = n \<Longrightarrow>
   slice_to \<lparr>arr = xs @ ys, slen = m\<rparr> n = Some \<lparr>arr = xs @ ys, slen = n\<rparr>"
  by (auto simp add: slice_to_def slice_cap_def)

lemma slice_bytes_app: "length xs = n \<Longrightarrow> slice_bytes \<lparr>arr = xs @ ys, slen = n\<rparr> = xs"
  by (auto simp add: slice_bytes_def)

lemma slice_from_app:
  "length xs = n \<Longrightarrow> n \<le> m \<Longrightarrow>
   slice_from \<lparr>arr = xs @ ys, slen = m\<rparr> n = Some \<lparr>arr = ys, slen = m - n\<rparr>"
  by (auto simp add: slice_from_def)

section \<open>Decoding an encoded order\<close>

text \<open>
  What \<open>Deserialize\<close> returns for an input laid out as the wire format says, with
  both length prefixes telling the lengths of the fields that follow them: the receiver
  with the fields read, and no error. \<open>k\<close> counts the bytes of the slice after the
  signature, \<open>rest\<close> is the backing array after the signature.
\<close>

lemma Deserialize_fields:
  assumes len: "length pk = 33" "length tp = 2" "length ah = 8" "length aw = 8"
      "length sl = 8" "length sd = unat (Uint64 sl)" "length aid = 32" "length nc = 2"
      "length gl = 8" "length sg = unat (Uint64 gl)"
    and a0: "well_typed a0" and k: "k \<le> length rest"
  shows "Deserialize a0
           \<lparr>arr = pk @ tp @ ah @ aw @ sl @ sd @ aid @ nc @ gl @ sg @ rest,
            slen = 101 + length sd + length sg + k\<rparr> =
         Some (a0\<lparr>Pubkey := pk, TradingPair := (tp ! 0, tp ! 1), AmountHave := Uint64 ah,
                  AmountWant := Uint64 aw, Side := string_of_bytes sd, AuctionID := aid,
                  Nonce := nc, Signature := sg\<rparr>, None)"
proof -
  from a0 have L0: "length (Pubkey a0) = 33" "length (AuctionID a0) = 32"
      "length (Nonce a0) = 2"
    by (simp_all add: well_typed_def)
  note len' = len(1-5) len(6) [symmetric] len(7-9) len(10) [symmetric]
  show ?thesis
    unfolding Deserialize_def
    using k
    apply (simp add: Pair_Size_def L0 del: bind_eq_Some_conv)
    apply (simp add: slice_to_app slice_bytes_app slice_from_app len' L0 Pair_Deserialize_def
        del: bind_eq_Some_conv)
    done
qed

text \<open>
  The encoding of \<open>a\<close> at the start of a backing array, in a slice that holds it and
  \<open>k\<close> more bytes, decodes to \<open>a\<close>; the receiver keeps its \<open>OrderbookPrice\<close>.
\<close>

lemma length_Serialize:
  "well_typed a \<Longrightarrow> length (Serialize a) = 101 + length (Side a) + length (Signature a)"
  by (simp add: Serialize_def well_typed_def Pair_Serialize_def)

lemma Deserialize_Serialize_append:
  assumes a: "well_typed a" and a0: "well_typed a0" and k: "k \<le> length rest"
  shows "Deserialize a0 \<lparr>arr = Serialize a @ rest, slen = length (Serialize a) + k\<rparr> =
           Some (a\<lparr>OrderbookPrice := OrderbookPrice a0\<rparr>, None)"
proof -
  from a have L: "length (Pubkey a) = 33" "length (AuctionID a) = 32"
      "length (Nonce a) = 2" "length (Side a) < 2 ^ 63" "length (Signature a) < 2 ^ 63"
    by (simp_all add: well_typed_def)
  have S: "length (bytes_of_string (Side a)) =
             unat (Uint64 (PutUint64 (word_of_nat (length (Side a)))))"
    using L by (simp add: unat_length)
  have G: "length (Signature a) =
             unat (Uint64 (PutUint64 (word_of_nat (length (Signature a)))))"
    using L by (simp add: unat_length)
  have P: "length (Pair_Serialize (TradingPair a)) = 2"
    by (simp add: Pair_Serialize_def)
  have E: "a0\<lparr>Pubkey := Pubkey a,
              TradingPair := (Pair_Serialize (TradingPair a) ! 0,
                              Pair_Serialize (TradingPair a) ! 1),
              AmountHave := Uint64 (PutUint64 (AmountHave a)),
              AmountWant := Uint64 (PutUint64 (AmountWant a)),
              Side := string_of_bytes (bytes_of_string (Side a)),
              AuctionID := AuctionID a, Nonce := Nonce a, Signature := Signature a\<rparr> =
           a\<lparr>OrderbookPrice := OrderbookPrice a0\<rparr>"
    by (cases a; cases a0) (simp add: Pair_Serialize_def)
  have "Deserialize a0
          \<lparr>arr = Pubkey a @ Pair_Serialize (TradingPair a) @ PutUint64 (AmountHave a) @
                 PutUint64 (AmountWant a) @ PutUint64 (word_of_nat (length (Side a))) @
                 bytes_of_string (Side a) @ AuctionID a @ Nonce a @
                 PutUint64 (word_of_nat (length (Signature a))) @ Signature a @ rest,
           slen = 101 + length (bytes_of_string (Side a)) + length (Signature a) + k\<rparr> =
        Some (a\<lparr>OrderbookPrice := OrderbookPrice a0\<rparr>, None)"
    unfolding E [symmetric]
    by (rule Deserialize_fields [OF L(1) P _ _ _ S L(2) L(3) _ G a0 k]) simp_all
  then show ?thesis
    by (simp add: length_Serialize [OF a]) (simp add: Serialize_def)
qed

lemma well_typed_sample_order: "well_typed sample_order"
  by (simp add: well_typed_def sample_order_def)

lemma well_typed_new_AuctionOrder: "well_typed new_AuctionOrder"
  by (simp add: well_typed_def new_AuctionOrder_def)

text \<open>
  Claim C1. For every order \<open>a\<close> (its arrays of the sizes the struct declares), every
  receiver and every spare capacity of the input slice, \<open>Deserialize\<close> of
  \<open>Serialize a\<close> returns without an error and leaves in the receiver the fields of
  \<open>a\<close>: public key, side, trading pair, both amounts, auction id, nonce and signature.
  Only \<open>OrderbookPrice\<close> is not taken from \<open>a\<close>: the receiver keeps its own.
\<close>

theorem Deserialize_Serialize_roundtrip:
  assumes "well_typed a" and "well_typed a0"
  shows "Deserialize a0 (mk_slice (Serialize a) spare) =
           Some (a\<lparr>OrderbookPrice := OrderbookPrice a0\<rparr>, None)"
  using Deserialize_Serialize_append [OF assms, of 0 spare]
  by (simp add: mk_slice_def)

theorem Deserialize_Serialize_roundtrip_witness:
  "well_typed sample_order \<and> well_typed new_AuctionOrder \<and>
   Deserialize new_AuctionOrder (mk_slice (Serialize sample_order) []) =
     Some (sample_order\<lparr>OrderbookPrice := OrderbookPrice new_AuctionOrder\<rparr>, None)"
  using Deserialize_Serialize_roundtrip
    [OF well_typed_sample_order well_typed_new_AuctionOrder, of "[]"]
    well_typed_sample_order well_typed_new_AuctionOrder
  by blast

text \<open>
  Claim C9. For every order \<open>a\<close> and all trailing bytes \<open>t\<close>, \<open>Deserialize\<close> of
  \<open>Serialize a @ t\<close> returns without an error and leaves the receiver exactly as
  \<open>Deserialize\<close> of \<open>Serialize a\<close> does: the trailing bytes are ignored.
\<close>

theorem Deserialize_ignores_trailing_bytes:
  assumes "well_typed a" and "well_typed a0"
  shows "Deserialize a0 (mk_slice (Serialize a @ t) spare) =
           Some (a\<lparr>OrderbookPrice := OrderbookPrice a0\<rparr>, None) \<and>
         Deserialize a0 (mk_slice (Serialize a @ t) spare) =
           Deserialize a0 (mk_slice (Serialize a) spare)"
  using Deserialize_Serialize_append [OF assms, of "length t" "t @ spare"]
    Deserialize_Serialize_append [OF assms, of 0 spare]
  by (simp add: mk_slice_def)

theorem Deserialize_ignores_trailing_bytes_witness:
  "well_typed sample_order \<and> well_typed new_AuctionOrder \<and>
   Deserialize new_AuctionOrder (mk_slice (Serialize sample_order @ [1, 2, 3]) []) =
     Some (sample_order\<lparr>OrderbookPrice := OrderbookPrice new_AuctionOrder\<rparr>, None) \<and>
   Deserialize new_AuctionOrder (mk_slice (Serialize sample_order @ [1, 2, 3]) []) =
     Deserialize new_AuctionOrder (mk_slice (Serialize sample_order) [])"
  using Deserialize_ignores_trailing_bytes
    [OF well_typed_sample_order well_typed_new_AuctionOrder, of "[1, 2, 3]" "[]"]
    well_typed_sample_order well_typed_new_AuctionOrder
  by blast

section \<open>The signable bytes are a prefix of the encoding\<close>

text \<open>
  Claim C6. For every order, the bytes of \<open>SerializeSignable\<close> are a prefix of the
  bytes of \<open>Serialize\<close>: the two agree on everything up to the nonce, and
  \<open>Serialize\<close> appends only the length of the signature and the signature.
\<close>

theorem SerializeSignable_prefix_of_Serialize:
  "Serialize a =
     SerializeSignable a @ PutUint64 (word_of_nat (length (Signature a))) @ Signature a
   \<and> prefix (SerializeSignable a) (Serialize a)"
  by (simp add: Serialize_def SerializeSignable_def)

end
